theory Spec2Isabelle
  imports Main
begin

section \<open>The example module \<^verbatim>\<open>examples/flyin_plugin/flyin_plugin/vscode.py\<close>\<close>

text \<open>
  The file is a Python module: a sequence of top-level statements (imports, one
  assignment, two method calls on the assigned object, function definitions, decorated
  task and workflow definitions). Loading the module runs them in order and leaves a
  table of global names and the configuration object the names refer to.
  The decorators \<^verbatim>\<open>task\<close>, \<^verbatim>\<open>vscode\<close>, \<^verbatim>\<open>workflow\<close> and the class \<^verbatim>\<open>VscodeConfig\<close> are
  imported from \<^verbatim>\<open>flytekit\<close> and \<^verbatim>\<open>flytekitplugins.flyin\<close>; their code is not part of the
  file. What the file needs of them is a parameter of the load (the record \<open>library\<close>
  below), and a decorated definition is kept as the data the file gives it: its name,
  the evaluated decorator arguments and its body.
\<close>

subsection \<open>Syntax of the fragment the file uses\<close>

datatype py_error =
    NameError string
  | ModuleNotFoundError string
  | ImportError string string
  | AttributeError string
  | TypeError string
  | ZeroDivisionError

text \<open>Argument expressions of the file: a name, a string, an integer, a boolean.\<close>

datatype atom = Name string | Str string | IntLit int | BoolLit bool

text \<open>
  Statements of the function bodies of the file: \<^verbatim>\<open>pass\<close>, \<^verbatim>\<open>print("...")\<close> and
  \<^verbatim>\<open>return a // b\<close> on integer literals.
\<close>

datatype stmt = Pass | Print string | ReturnFloorDiv int int

text \<open>
  Top-level statements. \<open>ImportFrom m ns\<close> is \<^verbatim>\<open>from m import n1, ..., nk\<close>,
  \<open>AssignNew x\<close> is \<^verbatim>\<open>x = VscodeConfig()\<close>,
  \<open>AddExtensions x e\<close> is \<^verbatim>\<open>x.add_extensions(e)\<close>, \<open>DefTask f targs vargs body\<close> is
  \<^verbatim>\<open>@task(targs) @vscode(vargs) def f(): body\<close> (a bare decorator has no arguments) and
  \<open>DefWorkflow f calls\<close> is \<^verbatim>\<open>@workflow def f(): g1(); ...; gn()\<close> with \<open>calls = [g1, ..., gn]\<close>.
\<close>

datatype top =
    ImportFrom string "string list"
  | AssignNew string
  | AddExtensions string atom
  | Def string "stmt list"
  | DefTask string "(string \<times> atom) list" "(string \<times> atom) list" "stmt list"
  | DefWorkflow string "string list"

subsection \<open>Values, the imported library and the module state\<close>

datatype val =
    VNone
  | VInt int
  | VBool bool
  | VStr string
  | VImported string string
  | VRef nat
  | VFunction string "stmt list"
  | VTask string "(string \<times> val) list" "(string \<times> val) list" "stmt list"
  | VWorkflow string "string list"

text \<open>
  The imported packages, as far as the file's top-level statements depend on them:
  which modules are installed, which names each of them exports, the object
  \<^verbatim>\<open>VscodeConfig()\<close> returns and what \<^verbatim>\<open>add_extensions\<close> makes of the object it is called
  on. The type \<open>'c\<close> of configuration objects is left open. None of this is in the file,
  so nothing is assumed about it.
\<close>

record 'c library =
  installed :: "string \<Rightarrow> bool"
  exports :: "string \<Rightarrow> string \<Rightarrow> bool"
  new_config :: 'c
  add_extensions :: "val \<Rightarrow> 'c \<Rightarrow> 'c"

text \<open>
  Global names are an association list, the latest binding first; the heap holds the
  configuration objects, a reference \<open>VRef r\<close> being an index into it.
\<close>

record 'c module_state =
  globals :: "(string \<times> val) list"
  heap :: "'c list"

definition lookup :: "(string \<times> val) list \<Rightarrow> string \<Rightarrow> py_error + val" where
  "lookup g n = (case map_of g n of None \<Rightarrow> Inl (NameError n) | Some v \<Rightarrow> Inr v)"

definition bind :: "string \<Rightarrow> val \<Rightarrow> 'c module_state \<Rightarrow> 'c module_state" where
  "bind n v st = st\<lparr>globals := (n, v) # globals st\<rparr>"

fun eval_atom :: "(string \<times> val) list \<Rightarrow> atom \<Rightarrow> py_error + val" where
  "eval_atom g (Name n) = lookup g n"
| "eval_atom g (Str s) = Inr (VStr s)"
| "eval_atom g (IntLit i) = Inr (VInt i)"
| "eval_atom g (BoolLit b) = Inr (VBool b)"

text \<open>Keyword arguments are evaluated left to right; the first error stops.\<close>

fun eval_kwargs :: "(string \<times> val) list \<Rightarrow> (string \<times> atom) list \<Rightarrow> py_error + (string \<times> val) list" where
  "eval_kwargs g [] = Inr []"
| "eval_kwargs g ((k, a) # kas) =
     (case eval_atom g a of
        Inl e \<Rightarrow> Inl e
      | Inr v \<Rightarrow> (case eval_kwargs g kas of Inl e \<Rightarrow> Inl e | Inr kvs \<Rightarrow> Inr ((k, v) # kvs)))"

text \<open>
  \<^verbatim>\<open>from m import n1, ..., nk\<close> raises \<^verbatim>\<open>ModuleNotFoundError\<close> when \<open>m\<close> is not installed
  and \<^verbatim>\<open>ImportError\<close> at the first name \<open>m\<close> does not export; otherwise it yields the
  bindings of the names, the last one first.
\<close>

definition import_from :: "'c library \<Rightarrow> string \<Rightarrow> string list \<Rightarrow> py_error + (string \<times> val) list" where
  "import_from L m ns =
     (if \<not> installed L m then Inl (ModuleNotFoundError m)
      else (case filter (\<lambda>n. \<not> exports L m n) ns of
              [] \<Rightarrow> Inr (rev (map (\<lambda>n. (n, VImported m n)) ns))
            | n # _ \<Rightarrow> Inl (ImportError m n)))"

subsection \<open>Loading the module\<close>

text \<open>
  A decorator is looked up before it is applied, so a definition whose decorator is not
  imported yet raises \<^verbatim>\<open>NameError\<close>. \<^verbatim>\<open>x.add_extensions(e)\<close> replaces the object \<open>x\<close>
  refers to by what the library's \<^verbatim>\<open>add_extensions\<close> makes of it; the statement's own
  result is discarded, as in the file.
\<close>

fun exec_top :: "'c library \<Rightarrow> 'c module_state \<Rightarrow> top \<Rightarrow> py_error + 'c module_state" where
  "exec_top L st (ImportFrom m ns) =
     (case import_from L m ns of
        Inl e \<Rightarrow> Inl e
      | Inr bs \<Rightarrow> Inr (st\<lparr>globals := bs @ globals st\<rparr>))"
| "exec_top L st (AssignNew x) =
     (case lookup (globals st) ''VscodeConfig'' of
        Inl e \<Rightarrow> Inl e
      | Inr _ \<Rightarrow> Inr (bind x (VRef (length (heap st))) (st\<lparr>heap := heap st @ [new_config L]\<rparr>)))"
| "exec_top L st (AddExtensions x a) =
     (case lookup (globals st) x of
        Inl e \<Rightarrow> Inl e
      | Inr (VRef r) \<Rightarrow>
          (if r < length (heap st) then
             (case eval_atom (globals st) a of
                Inl e \<Rightarrow> Inl e
              | Inr v \<Rightarrow> Inr (st\<lparr>heap := (heap st)[r := add_extensions L v (heap st ! r)]\<rparr>))
           else Inl (AttributeError ''add_extensions''))
      | Inr _ \<Rightarrow> Inl (AttributeError ''add_extensions''))"
| "exec_top L st (Def f body) = Inr (bind f (VFunction f body) st)"
| "exec_top L st (DefTask f targs vargs body) =
     (case lookup (globals st) ''task'' of
        Inl e \<Rightarrow> Inl e
      | Inr _ \<Rightarrow>
          (case eval_kwargs (globals st) targs of
             Inl e \<Rightarrow> Inl e
           | Inr tkw \<Rightarrow>
               (case lookup (globals st) ''vscode'' of
                  Inl e \<Rightarrow> Inl e
                | Inr _ \<Rightarrow>
                    (case eval_kwargs (globals st) vargs of
                       Inl e \<Rightarrow> Inl e
                     | Inr vkw \<Rightarrow> Inr (bind f (VTask f tkw vkw body) st)))))"
| "exec_top L st (DefWorkflow f calls) =
     (case lookup (globals st) ''workflow'' of
        Inl e \<Rightarrow> Inl e
      | Inr _ \<Rightarrow> Inr (bind f (VWorkflow f calls) st))"

fun exec_all :: "'c library \<Rightarrow> 'c module_state \<Rightarrow> top list \<Rightarrow> py_error + 'c module_state" where
  "exec_all L st [] = Inr st"
| "exec_all L st (t # ts) =
     (case exec_top L st t of Inl e \<Rightarrow> Inl e | Inr st' \<Rightarrow> exec_all L st' ts)"

definition load_module :: "'c library \<Rightarrow> top list \<Rightarrow> py_error + 'c module_state" where
  "load_module L m = exec_all L \<lparr>globals = [], heap = []\<rparr> m"

subsection \<open>The statements of the file, in order\<close>

definition vim_url :: string where
  "vim_url = ''https://open-vsx.org/api/vscodevim/vim/1.27.0/file/vscodevim.vim-1.27.0.vsix''"

definition vscode_module :: "top list" where
  "vscode_module =
    [ImportFrom ''flytekit'' [''task''],
     ImportFrom ''flytekitplugins.flyin'' [''vscode'', ''workflow''],
     DefTask ''train'' [] [] [Print ''forward'', Print ''backward''],
     DefWorkflow ''wf_train'' [''train''],
     ImportFrom ''flytekit'' [''task'', ''workflow''],
     ImportFrom ''flytekitplugins.flyin'' [''COPILOT_EXTENSION'', ''VscodeConfig'', ''vscode''],
     AssignNew ''config'',
     AddExtensions ''config'' (Name ''COPILOT_EXTENSION''),
     AddExtensions ''config'' (Str vim_url),
     DefTask ''t_ext'' [(''container_image'', Str ''localhost:30000/flytekit-flyin:0.0.0'')]
       [(''config'', Name ''config'')] [Pass],
     DefWorkflow ''wf_ext'' [''t_ext''],
     ImportFrom ''flytekit'' [''task'', ''workflow''],
     ImportFrom ''flytekitplugins.flyin'' [''vscode''],
     DefTask ''task_with_max_idle'' [] [(''max_idle_seconds'', IntLit 60000)] [Pass],
     DefWorkflow ''wf_idle'' [''task_with_max_idle''],
     ImportFrom ''flytekit'' [''task'', ''workflow''],
     ImportFrom ''flytekitplugins.flyin'' [''vscode''],
     Def ''set_up_proxy'' [Print ''set up''],
     Def ''push_code'' [Print ''push code''],
     DefTask ''t_hook'' []
       [(''pre_execute'', Name ''set_up_proxy''), (''post_execute'', Name ''push_code'')] [Pass],
     DefWorkflow ''wf_hook'' [''task_with_max_idle''],
     ImportFrom ''flytekit'' [''task'', ''workflow''],
     ImportFrom ''flytekitplugins.flyin'' [''vscode''],
     DefTask ''t_exception'' [] [(''run_task_first'', BoolLit True)] [ReturnFloorDiv 1 0],
     DefWorkflow ''wf_exception'' [''task_with_max_idle'']]"

subsection \<open>Running a workflow\<close>

text \<open>
  A workflow body of the file is a sequence of calls \<^verbatim>\<open>g()\<close>. The name is looked up in
  the module's globals when the body runs. Calling a task hands it to the decorators'
  runtime, which is not in the file: the run records which task object was invoked.
  Calling a plain function runs its body.
\<close>

datatype event = Printed string | Invoked val

fun exec_body :: "stmt list \<Rightarrow> py_error + event list" where
  "exec_body [] = Inr []"
| "exec_body (Pass # ss) = exec_body ss"
| "exec_body (Print s # ss) =
     (case exec_body ss of Inl e \<Rightarrow> Inl e | Inr evs \<Rightarrow> Inr (Printed s # evs))"
| "exec_body (ReturnFloorDiv a b # ss) = (if b = 0 then Inl ZeroDivisionError else Inr [])"

definition call :: "(string \<times> val) list \<Rightarrow> string \<Rightarrow> py_error + event list" where
  "call g f =
     (case lookup g f of
        Inl e \<Rightarrow> Inl e
      | Inr (VTask n tkw vkw body) \<Rightarrow> Inr [Invoked (VTask n tkw vkw body)]
      | Inr (VFunction n body) \<Rightarrow> exec_body body
      | Inr _ \<Rightarrow> Inl (TypeError f))"

fun run_calls :: "(string \<times> val) list \<Rightarrow> string list \<Rightarrow> py_error + event list" where
  "run_calls g [] = Inr []"
| "run_calls g (f # fs) =
     (case call g f of
        Inl e \<Rightarrow> Inl e
      | Inr evs \<Rightarrow> (case run_calls g fs of Inl e \<Rightarrow> Inl e | Inr evs' \<Rightarrow> Inr (evs @ evs')))"

definition run_workflow :: "(string \<times> val) list \<Rightarrow> string \<Rightarrow> py_error + event list" where
  "run_workflow g w =
     (case lookup g w of
        Inl e \<Rightarrow> Inl e
      | Inr (VWorkflow n calls) \<Rightarrow> run_calls g calls
      | Inr _ \<Rightarrow> Inl (TypeError w))"

text \<open>The workflows a module defines, and the names of the tasks a run invoked.\<close>

fun defined_workflows :: "top list \<Rightarrow> string list" where
  "defined_workflows [] = []"
| "defined_workflows (DefWorkflow f calls # ts) = f # defined_workflows ts"
| "defined_workflows (t # ts) = defined_workflows ts"

fun invoked_names :: "event list \<Rightarrow> string list" where
  "invoked_names [] = []"
| "invoked_names (Invoked (VTask n tkw vkw body) # evs) = n # invoked_names evs"
| "invoked_names (ev # evs) = invoked_names evs"

definition tasks_invoked_by :: "(string \<times> val) list \<Rightarrow> string \<Rightarrow> string list" where
  "tasks_invoked_by g w = (case run_workflow g w of Inl e \<Rightarrow> [] | Inr evs \<Rightarrow> invoked_names evs)"

subsection \<open>Observing the module while it loads\<close>

text \<open>
  \<open>state_after L n\<close> is the module state once the first \<open>n\<close> statements have run
  (all of them when \<open>n\<close> is 25 or more), or the error that stopped the load before.
\<close>

definition state_after :: "'c library \<Rightarrow> nat \<Rightarrow> py_error + 'c module_state" where
  "state_after L n = load_module L (take n vscode_module)"




text \<open>
  What a top-level statement can change: the global names it binds, and whether it
  creates or modifies a configuration object.
\<close>

fun binds :: "string \<Rightarrow> top \<Rightarrow> bool" where
  "binds x (ImportFrom m ns) = (x \<in> set ns)"
| "binds x (AssignNew y) = (x = y)"
| "binds x (AddExtensions y a) = False"
| "binds x (Def f body) = (x = f)"
| "binds x (DefTask f targs vargs body) = (x = f)"
| "binds x (DefWorkflow f calls) = (x = f)"


text \<open>
  \<open>permit L\<close> is the library \<open>L\<close> with every module installed and every name exported.
  A load that succeeds with \<open>L\<close> succeeds likewise with \<open>permit L\<close>, which is how the
  states of a successful load are computed.
\<close>

definition permit :: "'c library \<Rightarrow> 'c library" where
  "permit L =
     \<lparr>installed = (\<lambda>m. True), exports = (\<lambda>m n. True),
      new_config = new_config L, add_extensions = add_extensions L\<rparr>"

text \<open>
  A library with which every import of the file resolves: both packages installed,
  \<^verbatim>\<open>flytekit\<close> exporting \<^verbatim>\<open>task\<close> and \<^verbatim>\<open>workflow\<close>, \<^verbatim>\<open>flytekitplugins.flyin\<close> exporting the
  four names the file takes from it and \<^verbatim>\<open>workflow\<close>; a configuration object is its list
  of extensions, two by default ("Python and Jupyter extensions are installed by
  default", line 57), and \<^verbatim>\<open>add_extensions\<close> appends.
\<close>

definition example_library :: "val list library" where
  "example_library =
     \<lparr>installed = (\<lambda>m. m = ''flytekit'' \<or> m = ''flytekitplugins.flyin''),
      exports = (\<lambda>m n.
        if m = ''flytekit'' then n = ''task'' \<or> n = ''workflow''
        else n = ''vscode'' \<or> n = ''workflow'' \<or> n = ''COPILOT_EXTENSION'' \<or> n = ''VscodeConfig''),
      new_config = [VStr ''python'', VStr ''jupyter''],
      add_extensions = (\<lambda>e c. c @ [e])\<rparr>"

text \<open>
  The same library without \<^verbatim>\<open>workflow\<close> among the exports of \<^verbatim>\<open>flytekitplugins.flyin\<close>.
\<close>

definition library_without_workflow :: "val list library" where
  "library_without_workflow =
     \<lparr>installed = (\<lambda>m. m = ''flytekit'' \<or> m = ''flytekitplugins.flyin''),
      exports = (\<lambda>m n.
        if m = ''flytekit'' then n = ''task'' \<or> n = ''workflow''
        else n = ''vscode'' \<or> n = ''COPILOT_EXTENSION'' \<or> n = ''VscodeConfig''),
      new_config = [VStr ''python'', VStr ''jupyter''],
      add_extensions = (\<lambda>e c. c @ [e])\<rparr>"

section \<open>Frame properties of loading\<close>

lemma map_of_import_bindings:
  assumes "import_from L m ns = Inr bs" and "x \<notin> set ns"
  shows "map_of (bs @ g) x = map_of g x"
proof -
  from assms(1) have "bs = rev (map (\<lambda>n. (n, VImported m n)) ns)"
    by (auto simp: import_from_def split: if_splits list.splits)
  with assms(2) have "map_of bs x = None"
    by (simp add: map_of_eq_None_iff image_iff)
  then show ?thesis
    by (simp add: map_add_def)
qed

lemma exec_top_globals_frame:
  assumes "exec_top L st t = Inr st'" and "\<not> binds x t"
  shows "map_of (globals st') x = map_of (globals st) x"
  using assms
  by (cases t)
    (auto simp: bind_def map_of_import_bindings simp del: map_of_append
      split: sum.splits val.splits if_splits)


lemma exec_all_globals_frame:
  "exec_all L st ts = Inr st' \<Longrightarrow> \<forall>t \<in> set ts. \<not> binds x t \<Longrightarrow>
     map_of (globals st') x = map_of (globals st) x"
proof (induction ts arbitrary: st)
  case Nil
  then show ?case by simp
next
  case (Cons t ts)
  then obtain st1 where s1: "exec_top L st t = Inr st1" and s2: "exec_all L st1 ts = Inr st'"
    by (auto split: sum.splits)
  from Cons.prems(2) have "\<not> binds x t" and rest: "\<forall>t \<in> set ts. \<not> binds x t"
    by simp_all
  with s1 have "map_of (globals st1) x = map_of (globals st) x"
    by (simp add: exec_top_globals_frame)
  moreover have "map_of (globals st') x = map_of (globals st1) x"
    using Cons.IH [OF s2 rest] .
  ultimately show ?case by simp
qed


lemma exec_all_append:
  "exec_all L st (xs @ ys) =
     (case exec_all L st xs of Inl e \<Rightarrow> Inl e | Inr st1 \<Rightarrow> exec_all L st1 ys)"
  by (induction xs arbitrary: st) (auto split: sum.splits)

section \<open>Successful loads\<close>

text \<open>Imports are the only place where the library's exports matter.\<close>

lemma import_from_permit:
  "import_from L m ns = Inr bs \<Longrightarrow> import_from (permit L) m ns = Inr bs"
  by (auto simp: import_from_def permit_def split: if_splits list.splits)

lemma permit_same_objects:
  "new_config (permit L) = new_config L" "add_extensions (permit L) = add_extensions L"
  by (simp_all add: permit_def)

lemma exec_top_permit:
  "exec_top L st t = Inr st' \<Longrightarrow> exec_top (permit L) st t = Inr st'"
  by (cases t)
    (auto simp: import_from_permit permit_same_objects split: sum.splits val.splits if_splits)

lemma exec_all_permit:
  "exec_all L st ts = Inr st' \<Longrightarrow> exec_all (permit L) st ts = Inr st'"
proof (induction ts arbitrary: st)
  case Nil
  then show ?case by simp
next
  case (Cons t ts)
  then obtain st1 where s1: "exec_top L st t = Inr st1" and s2: "exec_all L st1 ts = Inr st'"
    by (auto split: sum.splits)
  then show ?case
    using Cons.IH [OF s2] exec_top_permit [OF s1] by simp
qed

lemma state_after_permit:
  "state_after L n = Inr st \<Longrightarrow> state_after (permit L) n = Inr st"
  by (simp add: state_after_def load_module_def exec_all_permit)

lemma sum_case_Inr:
  "(case x of Inl e \<Rightarrow> False | Inr st \<Rightarrow> P st) \<Longrightarrow> x = Inr st \<Longrightarrow> P st"
  by simp

text \<open>
  Between two points \<open>k \<le> n\<close> of a load that reaches \<open>n\<close>, the state at \<open>n\<close> is reached
  from the state at \<open>k\<close> by statements that all come after the first \<open>k\<close>.
\<close>

lemma state_after_suffix:
  assumes "k \<le> n" and "state_after L n = Inr stn"
  shows "\<exists>stk ts. state_after L k = Inr stk \<and> exec_all L stk ts = Inr stn \<and>
           set ts \<subseteq> set (drop k vscode_module)"
proof -
  let ?init = "\<lparr>globals = [], heap = []\<rparr> :: 'a module_state"
  let ?ts = "take (n - k) (drop k vscode_module)"
  have split: "take n vscode_module = take k vscode_module @ ?ts"
    using assms(1) take_add [of k "n - k" vscode_module] by simp
  from assms(2) have "exec_all L ?init (take k vscode_module @ ?ts) = Inr stn"
    by (simp add: state_after_def load_module_def split)
  then obtain stk where "exec_all L ?init (take k vscode_module) = Inr stk"
    and "exec_all L stk ?ts = Inr stn"
    unfolding exec_all_append by (auto split: sum.splits)
  moreover have "set ?ts \<subseteq> set (drop k vscode_module)"
    by (rule set_take_subset)
  ultimately show ?thesis
    by (auto simp: state_after_def load_module_def)
qed

text \<open>
  A name the file binds once, with statement \<open>k\<close>: it is unbound before and bound to the
  same value ever after.
\<close>

lemma binding_fixed:
  assumes "state_after L n = Inr st"
    and "case state_after (permit L) k of
           Inl e \<Rightarrow> False | Inr sk \<Rightarrow> map_of (globals sk) x = Some v"
    and "list_all (\<lambda>t. \<not> binds x t) (take (k - 1) vscode_module)"
    and "list_all (\<lambda>t. \<not> binds x t) (drop k vscode_module)"
    and "0 < k"
  shows "map_of (globals st) x = (if k \<le> n then Some v else None)"
proof (cases "k \<le> n")
  case True
  then obtain stk ts where sk: "state_after L k = Inr stk"
    and run: "exec_all L stk ts = Inr st"
    and sub: "set ts \<subseteq> set (drop k vscode_module)"
    using state_after_suffix [OF _ assms(1)] by blast
  have "map_of (globals stk) x = Some v"
    using sum_case_Inr [OF assms(2) state_after_permit [OF sk]] .
  moreover have "\<forall>t \<in> set ts. \<not> binds x t"
    using assms(4) sub by (auto simp: list_all_iff)
  ultimately show ?thesis
    using exec_all_globals_frame [OF run] True by simp
next
  case False
  with assms(5) have "n \<le> k - 1" by simp
  then have "set (take n vscode_module) \<subseteq> set (take (k - 1) vscode_module)"
    by (rule set_take_subset_set_take)
  then have "\<forall>t \<in> set (take n vscode_module). \<not> binds x t"
    using assms(3) by (auto simp: list_all_iff)
  moreover have "exec_all L \<lparr>globals = [], heap = []\<rparr> (take n vscode_module) = Inr st"
    using assms(1) by (simp add: state_after_def load_module_def)
  ultimately have "map_of (globals st) x = map_of [] x"
    using exec_all_globals_frame [of L "\<lparr>globals = [], heap = []\<rparr>" "take n vscode_module" st x]
    by simp
  with False show ?thesis by simp
qed

section \<open>What each name of the file is bound to\<close>

lemma train_binding:
  assumes "state_after L n = Inr st"
  shows "map_of (globals st) ''train'' =
    (if 3 \<le> n then Some (VTask ''train'' [] [] [Print ''forward'', Print ''backward'']) else None)"
  by (rule binding_fixed [OF assms]) code_simp+

lemma t_ext_binding:
  assumes "state_after L n = Inr st"
  shows "map_of (globals st) ''t_ext'' =
    (if 10 \<le> n then
       Some (VTask ''t_ext'' [(''container_image'', VStr ''localhost:30000/flytekit-flyin:0.0.0'')]
         [(''config'', VRef 0)] [Pass])
     else None)"
  by (rule binding_fixed [OF assms]) code_simp+

lemma task_with_max_idle_binding:
  assumes "state_after L n = Inr st"
  shows "map_of (globals st) ''task_with_max_idle'' =
    (if 14 \<le> n then
       Some (VTask ''task_with_max_idle'' [] [(''max_idle_seconds'', VInt 60000)] [Pass])
     else None)"
  by (rule binding_fixed [OF assms]) code_simp+

lemma t_hook_binding:
  assumes "state_after L n = Inr st"
  shows "map_of (globals st) ''t_hook'' =
    (if 20 \<le> n then
       Some (VTask ''t_hook'' []
         [(''pre_execute'', VFunction ''set_up_proxy'' [Print ''set up'']),
          (''post_execute'', VFunction ''push_code'' [Print ''push code''])] [Pass])
     else None)"
  by (rule binding_fixed [OF assms]) code_simp+

lemma t_exception_binding:
  assumes "state_after L n = Inr st"
  shows "map_of (globals st) ''t_exception'' =
    (if 24 \<le> n then
       Some (VTask ''t_exception'' [] [(''run_task_first'', VBool True)] [ReturnFloorDiv 1 0])
     else None)"
  by (rule binding_fixed [OF assms]) code_simp+

lemma wf_train_binding:
  assumes "state_after L n = Inr st"
  shows "map_of (globals st) ''wf_train'' =
    (if 4 \<le> n then Some (VWorkflow ''wf_train'' [''train'']) else None)"
  by (rule binding_fixed [OF assms]) code_simp+

lemma wf_ext_binding:
  assumes "state_after L n = Inr st"
  shows "map_of (globals st) ''wf_ext'' =
    (if 11 \<le> n then Some (VWorkflow ''wf_ext'' [''t_ext'']) else None)"
  by (rule binding_fixed [OF assms]) code_simp+

lemma wf_idle_binding:
  assumes "state_after L n = Inr st"
  shows "map_of (globals st) ''wf_idle'' =
    (if 15 \<le> n then Some (VWorkflow ''wf_idle'' [''task_with_max_idle'']) else None)"
  by (rule binding_fixed [OF assms]) code_simp+

lemma wf_hook_binding:
  assumes "state_after L n = Inr st"
  shows "map_of (globals st) ''wf_hook'' =
    (if 21 \<le> n then Some (VWorkflow ''wf_hook'' [''task_with_max_idle'']) else None)"
  by (rule binding_fixed [OF assms]) code_simp+

lemma wf_exception_binding:
  assumes "state_after L n = Inr st"
  shows "map_of (globals st) ''wf_exception'' =
    (if 25 \<le> n then Some (VWorkflow ''wf_exception'' [''task_with_max_idle'']) else None)"
  by (rule binding_fixed [OF assms]) code_simp+

section \<open>The configuration object\<close>







lemma example_library_loads:
  "case state_after example_library 25 of Inl e \<Rightarrow> False | Inr st \<Rightarrow> True"
  by code_simp

text \<open>
  With a \<^verbatim>\<open>flytekitplugins.flyin\<close> that does not export \<^verbatim>\<open>workflow\<close>, the load stops at
  the second statement (line 15) with \<^verbatim>\<open>ImportError\<close>: no task and no workflow of the
  file is ever defined.
\<close>

lemma load_stops_without_workflow_export:
  "load_module library_without_workflow vscode_module =
     Inl (ImportError ''flytekitplugins.flyin'' ''workflow'')"
  by code_simp



section \<open>Which task each workflow invokes\<close>

lemma run_workflow_single_task:
  assumes "map_of g w = Some (VWorkflow w' [f])"
    and "map_of g f = Some (VTask f' tkw vkw body)"
  shows "run_workflow g w = Inr [Invoked (VTask f' tkw vkw body)]"
  using assms by (simp add: run_workflow_def lookup_def call_def)

lemma run_workflow_unbound:
  assumes "map_of g w = None"
  shows "run_workflow g w = Inl (NameError w)"
  using assms by (simp add: run_workflow_def lookup_def)

lemma wf_train_runs:
  assumes "state_after L n = Inr st"
  shows "run_workflow (globals st) ''wf_train'' =
    (if 4 \<le> n then Inr [Invoked (VTask ''train'' [] [] [Print ''forward'', Print ''backward''])]
     else Inl (NameError ''wf_train''))"
  using wf_train_binding [OF assms] train_binding [OF assms]
  by (simp add: run_workflow_single_task run_workflow_unbound)

lemma wf_ext_runs:
  assumes "state_after L n = Inr st"
  shows "run_workflow (globals st) ''wf_ext'' =
    (if 11 \<le> n then
       Inr [Invoked (VTask ''t_ext''
         [(''container_image'', VStr ''localhost:30000/flytekit-flyin:0.0.0'')]
         [(''config'', VRef 0)] [Pass])]
     else Inl (NameError ''wf_ext''))"
  using wf_ext_binding [OF assms] t_ext_binding [OF assms]
  by (simp add: run_workflow_single_task run_workflow_unbound)

lemma wf_idle_runs:
  assumes "state_after L n = Inr st"
  shows "run_workflow (globals st) ''wf_idle'' =
    (if 15 \<le> n then Inr [Invoked (VTask ''task_with_max_idle'' [] [(''max_idle_seconds'', VInt 60000)] [Pass])] else Inl (NameError ''wf_idle''))"
  using wf_idle_binding [OF assms] task_with_max_idle_binding [OF assms]
  by (simp add: run_workflow_single_task run_workflow_unbound)

lemma wf_hook_runs:
  assumes "state_after L n = Inr st"
  shows "run_workflow (globals st) ''wf_hook'' =
    (if 21 \<le> n then Inr [Invoked (VTask ''task_with_max_idle'' [] [(''max_idle_seconds'', VInt 60000)] [Pass])] else Inl (NameError ''wf_hook''))"
  using wf_hook_binding [OF assms] task_with_max_idle_binding [OF assms]
  by (simp add: run_workflow_single_task run_workflow_unbound)

lemma wf_exception_runs:
  assumes "state_after L n = Inr st"
  shows "run_workflow (globals st) ''wf_exception'' =
    (if 25 \<le> n then Inr [Invoked (VTask ''task_with_max_idle'' [] [(''max_idle_seconds'', VInt 60000)] [Pass])] else Inl (NameError ''wf_exception''))"
  using wf_exception_binding [OF assms] task_with_max_idle_binding [OF assms]
  by (simp add: run_workflow_single_task run_workflow_unbound)

lemma workflows_of_the_file:
  "defined_workflows vscode_module =
     [''wf_train'', ''wf_ext'', ''wf_idle'', ''wf_hook'', ''wf_exception'']"
  by code_simp

text \<open>
  Claim C10. In every load of the file that gets as far as \<open>n\<close> statements, whatever
  the imported library exports and does: run at that point, \<^verbatim>\<open>wf_hook\<close> invokes exactly
  one task, the task object defined as \<^verbatim>\<open>task_with_max_idle\<close> (lines 88 to 91,
  \<^verbatim>\<open>max_idle_seconds=60000\<close>, body \<^verbatim>\<open>pass\<close>), as soon as it is defined (statement 21), and
  so does \<^verbatim>\<open>wf_exception\<close> (statement 25); before its definition the name is unbound and
  the run raises \<^verbatim>\<open>NameError\<close>. \<^verbatim>\<open>t_hook\<close> and \<^verbatim>\<open>t_exception\<close> are defined as tasks (from
  statements 20 and 24 on) and are at no point among the tasks that any of the five
  workflows of the file invokes.
\<close>

theorem wf_hook_wf_exception_invoke_task_with_max_idle:
  assumes "state_after L n = Inr st"
  shows
    "run_workflow (globals st) ''wf_hook'' =
       (if 21 \<le> n then Inr [Invoked (VTask ''task_with_max_idle'' [] [(''max_idle_seconds'', VInt 60000)] [Pass])] else Inl (NameError ''wf_hook'')) \<and>
     run_workflow (globals st) ''wf_exception'' =
       (if 25 \<le> n then Inr [Invoked (VTask ''task_with_max_idle'' [] [(''max_idle_seconds'', VInt 60000)] [Pass])] else Inl (NameError ''wf_exception'')) \<and>
     map_of (globals st) ''t_hook'' =
       (if 20 \<le> n then
          Some (VTask ''t_hook'' []
            [(''pre_execute'', VFunction ''set_up_proxy'' [Print ''set up'']),
             (''post_execute'', VFunction ''push_code'' [Print ''push code''])] [Pass])
        else None) \<and>
     map_of (globals st) ''t_exception'' =
       (if 24 \<le> n then
          Some (VTask ''t_exception'' [] [(''run_task_first'', VBool True)] [ReturnFloorDiv 1 0])
        else None) \<and>
     defined_workflows vscode_module =
       [''wf_train'', ''wf_ext'', ''wf_idle'', ''wf_hook'', ''wf_exception''] \<and>
     map (tasks_invoked_by (globals st)) (defined_workflows vscode_module) =
       [if 4 \<le> n then [''train''] else [],
        if 11 \<le> n then [''t_ext''] else [],
        if 15 \<le> n then [''task_with_max_idle''] else [],
        if 21 \<le> n then [''task_with_max_idle''] else [],
        if 25 \<le> n then [''task_with_max_idle''] else []] \<and>
     ''t_hook'' \<notin>
       set (concat (map (tasks_invoked_by (globals st)) (defined_workflows vscode_module))) \<and>
     ''t_exception'' \<notin>
       set (concat (map (tasks_invoked_by (globals st)) (defined_workflows vscode_module)))"
proof -
  have table: "map (tasks_invoked_by (globals st)) (defined_workflows vscode_module) =
       [if 4 \<le> n then [''train''] else [],
        if 11 \<le> n then [''t_ext''] else [],
        if 15 \<le> n then [''task_with_max_idle''] else [],
        if 21 \<le> n then [''task_with_max_idle''] else [],
        if 25 \<le> n then [''task_with_max_idle''] else []]"
    by (simp add: workflows_of_the_file tasks_invoked_by_def wf_train_runs [OF assms]
        wf_ext_runs [OF assms] wf_idle_runs [OF assms] wf_hook_runs [OF assms]
        wf_exception_runs [OF assms])
  have "''t_hook'' \<notin>
      set (concat (map (tasks_invoked_by (globals st)) (defined_workflows vscode_module)))"
    and "''t_exception'' \<notin>
      set (concat (map (tasks_invoked_by (globals st)) (defined_workflows vscode_module)))"
    unfolding table by simp_all
  then show ?thesis
    using table wf_hook_runs [OF assms] wf_exception_runs [OF assms] t_hook_binding [OF assms]
      t_exception_binding [OF assms] workflows_of_the_file
    by (intro conjI)
qed

text \<open>
  The theorem at the end of a load (25 statements) with the example library, where every
  import resolves.
\<close>

theorem wf_hook_wf_exception_invoke_task_with_max_idle_witness:
  "\<exists>st. state_after example_library 25 = Inr st \<and>
     run_workflow (globals st) ''wf_hook'' = Inr [Invoked (VTask ''task_with_max_idle'' [] [(''max_idle_seconds'', VInt 60000)] [Pass])] \<and>
     run_workflow (globals st) ''wf_exception'' = Inr [Invoked (VTask ''task_with_max_idle'' [] [(''max_idle_seconds'', VInt 60000)] [Pass])] \<and>
     map (tasks_invoked_by (globals st)) (defined_workflows vscode_module) =
       [[''train''], [''t_ext''], [''task_with_max_idle''], [''task_with_max_idle''],
        [''task_with_max_idle'']]"
proof -
  obtain st where st: "state_after example_library 25 = Inr st"
    using example_library_loads by (auto split: sum.splits)
  have le: "(4::nat) \<le> 25" "(11::nat) \<le> 25" "(15::nat) \<le> 25" "(21::nat) \<le> 25"
    "(25::nat) \<le> 25"
    by simp_all
  note at_end = wf_hook_wf_exception_invoke_task_with_max_idle [OF st,
      unfolded if_P [OF le(1)] if_P [OF le(2)] if_P [OF le(3)] if_P [OF le(4)] if_P [OF le(5)]]
  from at_end have "run_workflow (globals st) ''wf_hook'' = Inr [Invoked (VTask ''task_with_max_idle'' [] [(''max_idle_seconds'', VInt 60000)] [Pass])]"
    by (rule conjunct1)
  moreover from at_end
  have "run_workflow (globals st) ''wf_exception'' = Inr [Invoked (VTask ''task_with_max_idle'' [] [(''max_idle_seconds'', VInt 60000)] [Pass])]"
    by (rule conjunct2 [THEN conjunct1])
  moreover from at_end
  have "map (tasks_invoked_by (globals st)) (defined_workflows vscode_module) =
       [[''train''], [''t_ext''], [''task_with_max_idle''], [''task_with_max_idle''],
        [''task_with_max_idle'']]"
    by (rule conjunct2 [THEN conjunct2, THEN conjunct2, THEN conjunct2, THEN conjunct2,
          THEN conjunct1])
  ultimately show ?thesis
    using st by (intro exI [of _ st] conjI)
qed

end
